theory Spec2Isabelle
  imports Main
begin

section \<open>Results of an action\<close>

text \<open>
  An action of the contract either runs to its end or stops at a failed assertion. A
  handler is a function from the tables to an outcome and the tables as they are when
  the handler stops, so that what was written before a failure stays visible.
  The errors name the assertions of \<^verbatim>\<open>generic_currency.hpp\<close> and the
  failures of the parts it calls.
\<close>

datatype error =
    Unauthorized                \<comment> \<open>\<^verbatim>\<open>require_auth\<close>\<close>
  | InsufficientBalance         \<comment> \<open>token subtraction below zero\<close>
  | DegenerateCurve             \<comment> \<open>token division by zero\<close>
  | MalformedRequest            \<comment> \<open>\<^verbatim>\<open>unpack<relay_args>\<close>\<close>
  | SelfConversionRejected      \<comment> \<open>"cannot convert to self"\<close>
  | InvalidToCurrency           \<comment> \<open>"invalid to currency"\<close>
  | SlippageExceeded            \<comment> \<open>\<^verbatim>\<open>save_and_send\<close>\<close>
  | UnexpectedNotification      \<comment> \<open>"received unexpected notification of transfer"\<close>
  | UnknownActionNotification   \<comment> \<open>"unknown action notification"\<close>

definition ok :: "'a \<Rightarrow> 's \<Rightarrow> (error + 'a) \<times> 's" where
  "ok x s = (Inr x, s)"

definition abort :: "error \<Rightarrow> 's \<Rightarrow> (error + 'a) \<times> 's" where
  "abort e s = (Inl e, s)"

definition and_then ::
  "('s \<Rightarrow> (error + 'a) \<times> 's) \<Rightarrow> ('a \<Rightarrow> 's \<Rightarrow> (error + 'b) \<times> 's) \<Rightarrow> 's \<Rightarrow> (error + 'b) \<times> 's" where
  "and_then m f s = (case m s of (Inl e, s') \<Rightarrow> (Inl e, s') | (Inr x, s') \<Rightarrow> f x s')"

definition pure_step :: "error + 'a \<Rightarrow> 's \<Rightarrow> (error + 'a) \<times> 's" where
  "pure_step r s = (r, s)"

definition assert_that :: "bool \<Rightarrow> error \<Rightarrow> 's \<Rightarrow> (error + unit) \<times> 's" where
  "assert_that c e s = (if c then (Inr (), s) else (Inl e, s))"

section \<open>Token amounts\<close>

type_synonym account_name = nat

text \<open>
  Modelled from the spec: \<^verbatim>\<open>token<uint64_t,Contract>\<close> and its operators are declared
  in \<^verbatim>\<open>eoslib/token.hpp\<close>, which is not among the sources. The spec calls a token
  amount "an exact, non-negative fixed-point integer quantity", so an amount is a natural
  number and \<open>+\<close> and \<open>*\<close> are exact.
\<close>

type_synonym token = nat

text \<open>
  Modelled from the spec: the operators \<^verbatim>\<open>-\<close> and \<^verbatim>\<open>-=\<close> of the absent token type.
  Amounts are never negative and a transfer "fails with InsufficientBalance if from's
  balance < amount"; \<^verbatim>\<open>on(transfer)\<close> holds no check of its own, so the check is
  the subtraction's.
\<close>

definition tok_sub :: "token \<Rightarrow> token \<Rightarrow> error + token" where
  "tok_sub a b = (if a < b then Inl InsufficientBalance else Inr (a - b))"

text \<open>
  Modelled from the spec: the operator \<^verbatim>\<open>/\<close> of the absent token type. "Every
  division truncates toward zero; any division by a supply/balance of zero fails with
  DegenerateCurve".
\<close>

definition tok_div :: "token \<Rightarrow> token \<Rightarrow> error + token" where
  "tok_div a b = (if b = 0 then Inl DegenerateCurve else Inr (a div b))"

section \<open>The currency: \<^verbatim>\<open>generic_currency<Code>\<close>\<close>

record issue =
  issue_to :: account_name
  issue_quantity :: token

record transfer =
  from_account :: account_name
  to_account :: account_name
  quantity :: token
  memo :: string

record account =
  balance :: token

record currency_stats =
  "supply" :: token

text \<open>
  The tables of one currency: the \<^verbatim>\<open>accounts\<close> singleton, one record for each scope
  (the owner), and the \<^verbatim>\<open>stats\<close> singleton. The source declares \<^verbatim>\<open>stats\<close> over
  \<^verbatim>\<open>account\<close> and then reads \<^verbatim>\<open>s.supply\<close>; the record stored is the one with that
  field, \<^verbatim>\<open>currency_stats\<close>. \<open>notified\<close> collects the accounts passed to
  \<^verbatim>\<open>require_recipient\<close>.
\<close>

record ledger =
  accounts :: "account_name \<rightharpoonup> account"
  stats :: "currency_stats option"
  notified :: "account_name list"

text \<open>
  Modelled from the spec: \<^verbatim>\<open>singleton::get_or_create\<close> and \<^verbatim>\<open>singleton::set\<close> are
  declared in \<^verbatim>\<open>eoslib/singleton.hpp\<close>, which is not among the sources. The spec
  has a read return "the account's current balance, or the additive identity (zero) if
  the account has no stored record", and "reading never creates a stored record": the
  store has "get/set semantics only". A read of a missing record returns the default
  record and leaves the tables as they are; \<open>set\<close> stores the record.
\<close>

definition accounts_get_or_create :: "account_name \<Rightarrow> ledger \<Rightarrow> account \<times> ledger" where
  "accounts_get_or_create owner s =
     (case accounts s owner of
        Some r \<Rightarrow> (r, s)
      | None \<Rightarrow> (\<lparr>balance = 0\<rparr>, s))"

definition accounts_set :: "account_name \<Rightarrow> token \<Rightarrow> ledger \<Rightarrow> ledger" where
  "accounts_set owner b s = s\<lparr>accounts := (accounts s)(owner \<mapsto> \<lparr>balance = b\<rparr>)\<rparr>"

definition stats_get_or_create :: "ledger \<Rightarrow> currency_stats \<times> ledger" where
  "stats_get_or_create s =
     (case stats s of
        Some r \<Rightarrow> (r, s)
      | None \<Rightarrow> (\<lparr>supply = 0\<rparr>, s))"

definition stats_set :: "currency_stats \<Rightarrow> ledger \<Rightarrow> ledger" where
  "stats_set r s = s\<lparr>stats := Some r\<rparr>"

text \<open>
  The host's \<^verbatim>\<open>require_auth\<close> and \<^verbatim>\<open>require_recipient\<close>: \<open>auths\<close> are the
  accounts that authorised the running action.
\<close>

definition require_auth :: "account_name list \<Rightarrow> account_name \<Rightarrow> 's \<Rightarrow> (error + unit) \<times> 's" where
  "require_auth auths a = assert_that (a \<in> set auths) Unauthorized"

definition require_recipient :: "account_name list \<Rightarrow> ledger \<Rightarrow> (error + unit) \<times> ledger" where
  "require_recipient rs s = (Inr (), s\<lparr>notified := notified s @ rs\<rparr>)"

definition get_balance :: "account_name \<Rightarrow> ledger \<Rightarrow> (error + token) \<times> ledger" where
  "get_balance owner s = (case accounts_get_or_create owner s of (r, s') \<Rightarrow> (Inr (balance r), s'))"

definition set_balance :: "account_name \<Rightarrow> token \<Rightarrow> ledger \<Rightarrow> (error + unit) \<times> ledger" where
  "set_balance owner b s = (Inr (), accounts_set owner b s)"

definition on_transfer :: "account_name list \<Rightarrow> transfer \<Rightarrow> ledger \<Rightarrow> (error + unit) \<times> ledger" where
  "on_transfer auths act =
     and_then (require_auth auths (from_account act)) (\<lambda>_.
     and_then (require_recipient [to_account act, from_account act]) (\<lambda>_.
     and_then (get_balance (from_account act)) (\<lambda>b.
     and_then (pure_step (tok_sub b (quantity act))) (\<lambda>b'.
     and_then (set_balance (from_account act) b') (\<lambda>_.
     and_then (get_balance (to_account act)) (\<lambda>c.
     set_balance (to_account act) (c + quantity act)))))))"

text \<open>
  Modelled from the spec: the body of \<^verbatim>\<open>inline_transfer\<close> stops in the source after
  the action is built (\<^verbatim>\<open>action act{ t, .... }\<close>). The spec says that issue "then
  performs an internal transfer of amount from issuer to to": the transfer handler runs
  on the action built, under the authority of the running action.
\<close>

definition inline_transfer ::
  "account_name list \<Rightarrow> account_name \<Rightarrow> account_name \<Rightarrow> token \<Rightarrow> string \<Rightarrow> ledger \<Rightarrow> (error + unit) \<times> ledger" where
  "inline_transfer auths f t q m =
     on_transfer auths \<lparr>from_account = f, to_account = t, quantity = q, memo = m\<rparr>"

definition on_issue :: "account_name \<Rightarrow> account_name list \<Rightarrow> issue \<Rightarrow> ledger \<Rightarrow> (error + unit) \<times> ledger" where
  "on_issue Code auths act =
     and_then (require_auth auths Code) (\<lambda>_.
     and_then (\<lambda>s. case stats_get_or_create s of (r, s') \<Rightarrow> (Inr r, s')) (\<lambda>s0.
     and_then (\<lambda>s. (Inr (), stats_set (s0\<lparr>supply := supply s0 + issue_quantity act\<rparr>) s)) (\<lambda>_.
     and_then (get_balance Code) (\<lambda>b.
     and_then (set_balance Code (b + issue_quantity act)) (\<lambda>_.
     inline_transfer auths Code (issue_to act) (issue_quantity act) [])))))"

subsection \<open>What the tables say\<close>

definition balance_of :: "ledger \<Rightarrow> account_name \<Rightarrow> token" where
  "balance_of s a = (case accounts s a of None \<Rightarrow> 0 | Some r \<Rightarrow> balance r)"

definition supply_of :: "ledger \<Rightarrow> token" where
  "supply_of s = (case stats s of None \<Rightarrow> 0 | Some r \<Rightarrow> supply r)"

definition total_balance :: "ledger \<Rightarrow> token" where
  "total_balance s = (\<Sum>a\<in>dom (accounts s). balance_of s a)"

definition conserved :: "ledger \<Rightarrow> bool" where
  "conserved s \<longleftrightarrow> finite (dom (accounts s)) \<and> supply_of s = total_balance s"

definition empty_ledger :: ledger where
  "empty_ledger = \<lparr>accounts = Map.empty, stats = None, notified = []\<rparr>"

text \<open>
  The supply credited and the issuer's balance credited: the part of \<^verbatim>\<open>on(issue)\<close>
  between \<^verbatim>\<open>require_auth\<close> and \<^verbatim>\<open>inline_transfer\<close>, written as one update of the
  tables.
\<close>

definition issue_credit :: "account_name \<Rightarrow> token \<Rightarrow> ledger \<Rightarrow> ledger" where
  "issue_credit Code q s =
     (let s1 = snd (stats_get_or_create s);
          s2 = stats_set \<lparr>supply = supply_of s + q\<rparr> s1;
          s3 = snd (accounts_get_or_create Code s2)
      in accounts_set Code (balance_of s Code + q) s3)"

subsection \<open>Sequences of operations\<close>

datatype ledger_op =
    Issue "account_name list" issue
  | Transfer "account_name list" transfer

definition apply_op :: "account_name \<Rightarrow> ledger_op \<Rightarrow> ledger \<Rightarrow> (error + unit) \<times> ledger" where
  "apply_op Code op s =
     (case op of Issue auths act \<Rightarrow> on_issue Code auths act s
               | Transfer auths act \<Rightarrow> on_transfer auths act s)"

text \<open>
  Modelled from the spec: the host's transaction mechanism is not part of the sources.
  "Each invocation executes to either full completion or is atomically discarded": the
  tables after an operation are those the handler left if it ran to its end, and those
  before it if it failed.
\<close>

definition commit :: "ledger \<Rightarrow> (error + unit) \<times> ledger \<Rightarrow> ledger" where
  "commit s r = (case r of (Inl e, s') \<Rightarrow> s | (Inr u, s') \<Rightarrow> s')"

text \<open>The tables before the first operation and after each one.\<close>

fun run_ops :: "account_name \<Rightarrow> ledger_op list \<Rightarrow> ledger \<Rightarrow> ledger list" where
  "run_ops Code [] s = [s]"
| "run_ops Code (op # ops) s = s # run_ops Code ops (commit s (apply_op Code op s))"

section \<open>The relay: \<^verbatim>\<open>relay_contract<RelayAccount, FirstCurrency, SecondCurrency>\<close>\<close>

text \<open>
  The template parameters of the contract. The three currencies
  \<^verbatim>\<open>relay_currency\<close>, \<^verbatim>\<open>first_currency\<close> and \<^verbatim>\<open>second_currency\<close> are
  \<^verbatim>\<open>generic_currency\<close> at these three codes, and a currency is named by its code.
\<close>

record relay_contract =
  RelayAccount :: account_name
  FirstCurrency :: account_name
  SecondCurrency :: account_name

text \<open>
  The fields \<^verbatim>\<open>supply\<close> and \<^verbatim>\<open>balance\<close> of \<^verbatim>\<open>relay_state\<close>; the two names are
  taken by the records of the currency.
\<close>

record relay_state =
  relay_supply :: token    \<comment> \<open>total supply held by all users\<close>
  relay_balance :: token   \<comment> \<open>supply held by relay in its own balance\<close>

record relay_args =
  to_currency_type :: account_name
  min_return_currency :: nat

text \<open>\<^verbatim>\<open>connector<CurrencyType, Weight, Base>\<close>: the template arguments.\<close>

record connector =
  currency_type :: account_name
  Weight :: nat
  Base :: nat

text \<open>
  \<^verbatim>\<open>convert_to_relay\<close> reads the balance the relay account holds in the connector's
  currency, so it runs on that currency's tables. \<^verbatim>\<open>relay_state& state\<close> is a local
  of the caller passed by reference: it goes in and comes out with the amount returned.
\<close>

definition convert_to_relay ::
  "account_name \<Rightarrow> connector \<Rightarrow> token \<Rightarrow> relay_state \<Rightarrow> ledger \<Rightarrow> (error + token \<times> relay_state) \<times> ledger" where
  "convert_to_relay relay c in_amt state =
     and_then (get_balance relay) (\<lambda>bal.
     and_then (pure_step (tok_sub bal in_amt)) (\<lambda>previous_balance.
     and_then (pure_step (tok_div (previous_balance * Base c) (Weight c * relay_supply state))) (\<lambda>init_price.
     let init_out = init_price * in_amt in
     and_then (pure_step (tok_div (bal * Base c) (Weight c * (relay_supply state + init_out)))) (\<lambda>out_price.
     let final_out = out_price * in_amt;
         state1 = state\<lparr>relay_balance := relay_balance state + final_out\<rparr>;
         state2 = state1\<lparr>relay_supply := relay_supply state1 + final_out\<rparr>
     in ok (final_out, state2)))))"

text \<open>
  \<^verbatim>\<open>convert_from_relay\<close> computes its provisional output as \<^verbatim>\<open>init_price * in\<close>, and
  declares no \<^verbatim>\<open>in\<close>: its parameter is \<^verbatim>\<open>relay_in\<close>. The amount that \<^verbatim>\<open>in\<close> stands
  for is the parameter \<open>in_amt\<close> here.
\<close>

definition convert_from_relay ::
  "account_name \<Rightarrow> connector \<Rightarrow> token \<Rightarrow> token \<Rightarrow> relay_state \<Rightarrow> ledger \<Rightarrow> (error + token \<times> relay_state) \<times> ledger" where
  "convert_from_relay relay c in_amt relay_in state =
     and_then (get_balance relay) (\<lambda>to_balance.
     and_then (pure_step (tok_div (to_balance * Base c) (Weight c * relay_supply state))) (\<lambda>init_price.
     let init_out = init_price * in_amt in
     and_then (pure_step (tok_sub (relay_supply state) relay_in)) (\<lambda>supply1.
     let state1 = state\<lparr>relay_supply := supply1\<rparr> in
     and_then (pure_step (tok_sub (relay_balance state1) relay_in)) (\<lambda>balance1.
     let state2 = state1\<lparr>relay_balance := balance1\<rparr> in
     and_then (pure_step (tok_sub to_balance init_out)) (\<lambda>rest.
     and_then (pure_step (tok_div (rest * Base c) (Weight c * relay_supply state2))) (\<lambda>out_price.
     ok (out_price * relay_in, state2)))))))"

subsection \<open>The dispatcher\<close>

text \<open>
  What the relay contract works on: the tables of every currency, by the currency's
  code, the relay state as stored, and the transfers sent out.
\<close>

record world =
  ledgers :: "account_name \<Rightarrow> ledger"
  stored_state :: relay_state
  sent :: "(account_name \<times> token) list"

definition in_currency ::
  "account_name \<Rightarrow> (ledger \<Rightarrow> (error + 'a) \<times> ledger) \<Rightarrow> world \<Rightarrow> (error + 'a) \<times> world" where
  "in_currency code m w =
     (case m (ledgers w code) of (r, l) \<Rightarrow> (r, w\<lparr>ledgers := (ledgers w)(code := l)\<rparr>))"

text \<open>
  Modelled from the spec: \<^verbatim>\<open>read_relay_state\<close> and \<^verbatim>\<open>save_and_send\<close> are called
  and nowhere defined in the sources. The spec: the dispatcher "loads Relay State";
  settling fails "with SlippageExceeded if output < minimum", and otherwise will "issue
  an outbound transfer of the computed output to the original trader, persist the
  updated Relay State".
\<close>

definition read_relay_state :: "world \<Rightarrow> (error + relay_state) \<times> world" where
  "read_relay_state w = (Inr (stored_state w), w)"

definition save_and_send ::
  "account_name \<Rightarrow> relay_state \<Rightarrow> token \<Rightarrow> nat \<Rightarrow> world \<Rightarrow> (error + unit) \<times> world" where
  "save_and_send trader state output min_return =
     and_then (assert_that (\<not> output < min_return) SlippageExceeded) (\<lambda>_ w.
       (Inr (), w\<lparr>stored_state := state, sent := sent w @ [(trader, output)]\<rparr>))"

text \<open>
  \<^verbatim>\<open>first_connector\<close> and \<^verbatim>\<open>second_connector\<close> are used and not declared in the
  sources: the connectors of the two currencies, at the default \<^verbatim>\<open>Weight\<close> and
  \<^verbatim>\<open>Base\<close> of the template.
\<close>

definition first_connector :: "relay_contract \<Rightarrow> connector" where
  "first_connector rc = \<lparr>currency_type = FirstCurrency rc, Weight = 500000, Base = 1000000\<rparr>"

definition second_connector :: "relay_contract \<Rightarrow> connector" where
  "second_connector rc = \<lparr>currency_type = SecondCurrency rc, Weight = 500000, Base = 1000000\<rparr>"

text \<open>
  \<^verbatim>\<open>on_convert\<close> for a transfer of the relay currency. The callers of
  \<^verbatim>\<open>convert_from_relay\<close> pass the amount redeemed for its undeclared \<^verbatim>\<open>in\<close>, as the
  spec asks ("an implementer must use relayAmountIn there").
\<close>

definition on_convert_relay ::
  "relay_contract \<Rightarrow> transfer \<Rightarrow> relay_args \<Rightarrow> relay_state \<Rightarrow> world \<Rightarrow> (error + unit) \<times> world" where
  "on_convert_relay rc tr args state =
     (if to_currency_type args = FirstCurrency rc then
        and_then (in_currency (FirstCurrency rc)
                    (convert_from_relay (RelayAccount rc) (first_connector rc) (quantity tr) (quantity tr) state))
          (\<lambda>(output, state1). save_and_send (from_account tr) state1 output (min_return_currency args))
      else if to_currency_type args = SecondCurrency rc then
        and_then (in_currency (SecondCurrency rc)
                    (convert_from_relay (RelayAccount rc) (second_connector rc) (quantity tr) (quantity tr) state))
          (\<lambda>(output, state1). save_and_send (from_account tr) state1 output (min_return_currency args))
      else abort InvalidToCurrency)"

text \<open>\<^verbatim>\<open>on_convert<ConnectorType>\<close> for a transfer of a connector currency.\<close>

definition on_convert ::
  "relay_contract \<Rightarrow> connector \<Rightarrow> transfer \<Rightarrow> relay_args \<Rightarrow> relay_state \<Rightarrow> world \<Rightarrow> (error + unit) \<times> world" where
  "on_convert rc c tr args state =
     and_then (in_currency (currency_type c) (convert_to_relay (RelayAccount rc) c (quantity tr) state))
       (\<lambda>(relay_out, state1).
          if to_currency_type args = RelayAccount rc then
            save_and_send (from_account tr) state1 relay_out (min_return_currency args)
          else
            and_then (in_currency (currency_type c)
                        (convert_from_relay (RelayAccount rc) c relay_out relay_out state1))
              (\<lambda>(output, state2). save_and_send (from_account tr) state2 output (min_return_currency args)))"

text \<open>
  The conversion through both connectors as the spec words it: "invoke
  convert_to_relay on the source connector followed by convert_from_relay on the target
  connector". \<open>c\<close> is the connector of the currency received and \<open>other\<close> the
  connector of the currency asked for.
\<close>

definition on_convert_spec ::
  "relay_contract \<Rightarrow> connector \<Rightarrow> connector \<Rightarrow> transfer \<Rightarrow> relay_args \<Rightarrow> relay_state \<Rightarrow> world \<Rightarrow> (error + unit) \<times> world" where
  "on_convert_spec rc c other tr args state =
     and_then (in_currency (currency_type c) (convert_to_relay (RelayAccount rc) c (quantity tr) state))
       (\<lambda>(relay_out, state1).
          if to_currency_type args = RelayAccount rc then
            save_and_send (from_account tr) state1 relay_out (min_return_currency args)
          else
            and_then (in_currency (currency_type other)
                        (convert_from_relay (RelayAccount rc) other relay_out relay_out state1))
              (\<lambda>(output, state2). save_and_send (from_account tr) state2 output (min_return_currency args)))"

text \<open>
  \<^verbatim>\<open>start_convert<CurrencyType>\<close>. \<open>unpack\<close> is the decoder of the memo, a part of
  the host library; \<open>code\<close> is the code of the currency transferred, the value of
  \<^verbatim>\<open>trans.quantity.token_type()\<close>. The call \<^verbatim>\<open>on_convert( trans, args, state )\<close> goes to
  the first overload for a transfer of the relay currency and to the template, at the
  connector of the currency, for the two others.
\<close>

definition connector_of :: "relay_contract \<Rightarrow> account_name \<Rightarrow> connector" where
  "connector_of rc code = (if code = FirstCurrency rc then first_connector rc else second_connector rc)"

definition start_convert ::
  "relay_contract \<Rightarrow> (string \<Rightarrow> relay_args option) \<Rightarrow> account_name \<Rightarrow> transfer \<Rightarrow> world \<Rightarrow> (error + unit) \<times> world" where
  "start_convert rc unpack code tr =
     and_then (pure_step (case unpack (memo tr) of None \<Rightarrow> Inl MalformedRequest | Some a \<Rightarrow> Inr a)) (\<lambda>args.
     and_then (assert_that (to_currency_type args \<noteq> code) SelfConversionRejected) (\<lambda>_.
     and_then read_relay_state (\<lambda>state.
     if code = RelayAccount rc then on_convert_relay rc tr args state
     else on_convert rc (connector_of rc code) tr args state)))"

text \<open>\<^verbatim>\<open>on( const relay_currency::transfer& )\<close>.\<close>

definition on_relay_transfer ::
  "relay_contract \<Rightarrow> (string \<Rightarrow> relay_args option) \<Rightarrow> account_name list \<Rightarrow> transfer \<Rightarrow> world \<Rightarrow> (error + unit) \<times> world" where
  "on_relay_transfer rc unpack auths tr =
     and_then (in_currency (RelayAccount rc) (on_transfer auths tr)) (\<lambda>_.
     if to_account tr = RelayAccount rc then start_convert rc unpack (RelayAccount rc) tr
     else ok ())"

text \<open>\<^verbatim>\<open>on<Currency>( const Currency::transfer& )\<close>, for the other currencies.\<close>

definition on_currency_transfer ::
  "relay_contract \<Rightarrow> (string \<Rightarrow> relay_args option) \<Rightarrow> account_name \<Rightarrow> transfer \<Rightarrow> world \<Rightarrow> (error + unit) \<times> world" where
  "on_currency_transfer rc unpack code tr =
     (if to_account tr = RelayAccount rc then start_convert rc unpack code tr
      else assert_that (from_account tr = RelayAccount rc) UnexpectedNotification)"

text \<open>
  \<^verbatim>\<open>apply( code, action )\<close>. \<open>tr\<close> is the payload of the running action, which
  \<^verbatim>\<open>unpack_action\<close> reads from the host. The second and the third test of the source
  are both \<^verbatim>\<open>code == first_currency\<close>.
\<close>

definition apply_action ::
  "relay_contract \<Rightarrow> (string \<Rightarrow> relay_args option) \<Rightarrow> account_name list \<Rightarrow>
   account_name \<Rightarrow> string \<Rightarrow> transfer \<Rightarrow> world \<Rightarrow> (error + unit) \<times> world" where
  "apply_action rc unpack auths code action tr =
     (if code = RelayAccount rc then
        (if action = ''transfer'' then on_relay_transfer rc unpack auths tr else ok ())
      else if code = FirstCurrency rc then
        (if action = ''transfer'' then on_currency_transfer rc unpack (FirstCurrency rc) tr else ok ())
      else if code = FirstCurrency rc then
        (if action = ''transfer'' then on_currency_transfer rc unpack (SecondCurrency rc) tr else ok ())
      else abort UnknownActionNotification)"

text \<open>
  The dispatch as the spec words it, "distinct per-currency branches": the third test
  is on the second currency.
\<close>

definition apply_action_spec ::
  "relay_contract \<Rightarrow> (string \<Rightarrow> relay_args option) \<Rightarrow> account_name list \<Rightarrow>
   account_name \<Rightarrow> string \<Rightarrow> transfer \<Rightarrow> world \<Rightarrow> (error + unit) \<times> world" where
  "apply_action_spec rc unpack auths code action tr =
     (if code = RelayAccount rc then
        (if action = ''transfer'' then on_relay_transfer rc unpack auths tr else ok ())
      else if code = FirstCurrency rc then
        (if action = ''transfer'' then on_currency_transfer rc unpack (FirstCurrency rc) tr else ok ())
      else if code = SecondCurrency rc then
        (if action = ''transfer'' then on_currency_transfer rc unpack (SecondCurrency rc) tr else ok ())
      else abort UnknownActionNotification)"

text \<open>
  The round trip of the spec: "converting x units of connector A to relay then
  immediately back to connector A", the amount redeemed standing for the undeclared
  \<^verbatim>\<open>in\<close> as in the dispatcher.
\<close>

definition round_trip ::
  "account_name \<Rightarrow> connector \<Rightarrow> token \<Rightarrow> relay_state \<Rightarrow> ledger \<Rightarrow> (error + token \<times> relay_state) \<times> ledger" where
  "round_trip relay c x state =
     and_then (convert_to_relay relay c x state) (\<lambda>(relay_out, state1).
       convert_from_relay relay c relay_out relay_out state1)"

section \<open>Inputs of the examples\<close>

definition ex_rc :: relay_contract where
  "ex_rc = \<lparr>RelayAccount = 10, FirstCurrency = 20, SecondCurrency = 30\<rparr>"

definition ex_state :: relay_state where
  "ex_state = \<lparr>relay_supply = 1000000, relay_balance = 1000000\<rparr>"

definition ex_holding :: "token \<Rightarrow> ledger" where
  "ex_holding b = \<lparr>accounts = [10 \<mapsto> \<lparr>balance = b\<rparr>], stats = None, notified = []\<rparr>"

definition ex_world :: world where
  "ex_world = \<lparr>ledgers = (\<lambda>_. empty_ledger)(20 := ex_holding 2000000, 30 := ex_holding 500000),
               stored_state = ex_state, sent = []\<rparr>"

definition ex_unpack :: "string \<Rightarrow> relay_args option" where
  "ex_unpack m =
     (if m = ''relay'' then Some \<lparr>to_currency_type = 10, min_return_currency = 0\<rparr>
      else if m = ''first'' then Some \<lparr>to_currency_type = 20, min_return_currency = 0\<rparr>
      else if m = ''second'' then Some \<lparr>to_currency_type = 30, min_return_currency = 0\<rparr>
      else None)"

definition ex_incoming :: "string \<Rightarrow> transfer" where
  "ex_incoming m = \<lparr>from_account = 40, to_account = 10, quantity = 100, memo = m\<rparr>"

definition ex_ops :: "ledger_op list" where
  "ex_ops = [Issue [1] \<lparr>issue_to = 2, issue_quantity = 100\<rparr>,
             Transfer [2] \<lparr>from_account = 2, to_account = 3, quantity = 30, memo = []\<rparr>,
             Transfer [3] \<lparr>from_account = 3, to_account = 2, quantity = 50, memo = []\<rparr>]"

definition ex_ledger2 :: ledger where
  "ex_ledger2 = \<lparr>accounts = [2 \<mapsto> \<lparr>balance = 70\<rparr>, 3 \<mapsto> \<lparr>balance = 30\<rparr>], stats = Some \<lparr>supply = 100\<rparr>, notified = []\<rparr>"

definition ex_transfer :: "token \<Rightarrow> transfer" where
  "ex_transfer q = \<lparr>from_account = 3, to_account = 2, quantity = q, memo = []\<rparr>"

section \<open>The currency: conservation and failure\<close>

lemma balance_of_accounts_set:
  "balance_of (accounts_set a v s) x = (if x = a then v else balance_of s x)"
  by (simp add: balance_of_def accounts_set_def)

lemma total_balance_accounts_set:
  assumes "finite (dom (accounts s))"
  shows "total_balance (accounts_set a v s) + balance_of s a = total_balance s + v"
proof -
  let ?D = "dom (accounts s)"
  have dom': "dom (accounts (accounts_set a v s)) = insert a ?D"
    by (simp add: accounts_set_def)
  have rest: "(\<Sum>x\<in>?D - {a}. balance_of (accounts_set a v s) x) = (\<Sum>x\<in>?D - {a}. balance_of s x)"
    by (rule sum.cong) (auto simp: balance_of_accounts_set)
  have new: "total_balance (accounts_set a v s) = v + (\<Sum>x\<in>?D - {a}. balance_of s x)"
    unfolding total_balance_def dom' using assms rest
    by (simp add: sum.insert_remove balance_of_accounts_set)
  have old: "total_balance s = balance_of s a + (\<Sum>x\<in>?D - {a}. balance_of s x)"
  proof (cases "a \<in> ?D")
    case True
    then show ?thesis unfolding total_balance_def using assms by (simp add: sum.remove)
  next
    case False
    then have "balance_of s a = 0" by (auto simp: balance_of_def split: option.splits)
    with False show ?thesis unfolding total_balance_def by simp
  qed
  from new old show ?thesis by simp
qed

lemma get_balance_eq:
  "get_balance a s = (Inr (balance_of s a), snd (accounts_get_or_create a s))"
  by (simp add: get_balance_def accounts_get_or_create_def balance_of_def split: option.splits)

lemma goc_balance_of: "balance_of (snd (accounts_get_or_create a s)) x = balance_of s x"
  by (simp add: accounts_get_or_create_def balance_of_def split: option.splits)

lemma goc_stats: "stats (snd (accounts_get_or_create a s)) = stats s"
  by (simp add: accounts_get_or_create_def split: option.splits)

lemma goc_dom: "dom (accounts (snd (accounts_get_or_create a s))) = dom (accounts s)"
  by (simp add: accounts_get_or_create_def split: option.splits)

lemma goc_total:
  assumes "finite (dom (accounts s))"
  shows "total_balance (snd (accounts_get_or_create a s)) = total_balance s"
  by (simp add: accounts_get_or_create_def split: option.splits)

lemma notified_balance_of [simp]: "balance_of (s\<lparr>notified := n\<rparr>) x = balance_of s x"
  by (simp add: balance_of_def)

lemma on_transfer_unfold:
  "on_transfer auths act s =
     (if from_account act \<notin> set auths then (Inl Unauthorized, s)
      else let s1 = s\<lparr>notified := notified s @ [to_account act, from_account act]\<rparr>;
               s2 = snd (accounts_get_or_create (from_account act) s1)
           in if balance_of s (from_account act) < quantity act then (Inl InsufficientBalance, s2)
              else let s3 = accounts_set (from_account act) (balance_of s (from_account act) - quantity act) s2;
                       s4 = snd (accounts_get_or_create (to_account act) s3)
                   in (Inr (), accounts_set (to_account act) (balance_of s3 (to_account act) + quantity act) s4))"
  by (simp add: on_transfer_def and_then_def require_auth_def assert_that_def
      require_recipient_def get_balance_eq pure_step_def tok_sub_def set_balance_def Let_def)

lemma notified_total [simp]: "total_balance (s\<lparr>notified := n\<rparr>) = total_balance s"
  by (simp add: total_balance_def)

lemma notified_supply [simp]: "supply_of (s\<lparr>notified := n\<rparr>) = supply_of s"
  by (simp add: supply_of_def)

lemma accounts_set_supply [simp]: "supply_of (accounts_set a v s) = supply_of s"
  by (simp add: supply_of_def accounts_set_def)

lemma goc_supply [simp]: "supply_of (snd (accounts_get_or_create a s)) = supply_of s"
  by (simp add: supply_of_def goc_stats)

lemma accounts_set_finite [simp]:
  "finite (dom (accounts (accounts_set a v s))) = finite (dom (accounts s))"
  by (simp add: accounts_set_def)

lemma goc_finite [simp]:
  "finite (dom (accounts (snd (accounts_get_or_create a s)))) = finite (dom (accounts s))"
  by (simp add: goc_dom)

lemma debit_total:
  assumes "finite (dom (accounts s))" and "q \<le> balance_of s a"
  shows "total_balance (accounts_set a (balance_of s a - q) s) + q = total_balance s"
  using total_balance_accounts_set [OF assms(1), of a "balance_of s a - q"] assms(2) by simp

lemma credit_total:
  assumes "finite (dom (accounts s))"
  shows "total_balance (accounts_set a (balance_of s a + q) s) = total_balance s + q"
  using total_balance_accounts_set [OF assms, of a "balance_of s a + q"] by simp

lemma on_transfer_supply: "supply_of (snd (on_transfer auths act s)) = supply_of s"
  by (simp add: on_transfer_unfold Let_def)

lemma on_transfer_finite:
  "finite (dom (accounts (snd (on_transfer auths act s)))) = finite (dom (accounts s))"
  by (simp add: on_transfer_unfold Let_def)

lemma on_transfer_total:
  assumes "finite (dom (accounts s))"
  shows "total_balance (snd (on_transfer auths act s)) = total_balance s"
proof -
  let ?f = "from_account act" and ?t = "to_account act" and ?q = "quantity act"
  let ?s1 = "s\<lparr>notified := notified s @ [?t, ?f]\<rparr>"
  let ?s2 = "snd (accounts_get_or_create ?f ?s1)"
  let ?s3 = "accounts_set ?f (balance_of s ?f - ?q) ?s2"
  let ?s4 = "snd (accounts_get_or_create ?t ?s3)"
  let ?s5 = "accounts_set ?t (balance_of ?s3 ?t + ?q) ?s4"
  have f1: "finite (dom (accounts ?s1))" using assms by simp
  have t2: "total_balance ?s2 = total_balance s" using goc_total [OF f1] by simp
  have f2: "finite (dom (accounts ?s2))" using f1 by simp
  have b2: "balance_of ?s2 ?f = balance_of s ?f" by (simp add: goc_balance_of)
  show ?thesis
  proof (cases "?f \<in> set auths \<and> \<not> balance_of s ?f < ?q")
    case True
    then have le: "?q \<le> balance_of ?s2 ?f" by (simp add: b2)
    have t3: "total_balance ?s3 + ?q = total_balance s"
      using debit_total [OF f2 le] by (simp add: b2 t2)
    have f3: "finite (dom (accounts ?s3))" using f2 by simp
    have f4: "finite (dom (accounts ?s4))" using f3 by simp
    have t4: "total_balance ?s4 = total_balance ?s3" by (rule goc_total [OF f3])
    have b4: "balance_of ?s4 ?t = balance_of ?s3 ?t" by (simp add: goc_balance_of)
    have t5: "total_balance ?s5 = total_balance ?s4 + ?q"
      using credit_total [OF f4, of ?t ?q] by (simp add: b4)
    from True have "snd (on_transfer auths act s) = ?s5"
      by (simp add: on_transfer_unfold Let_def)
    with t3 t4 t5 show ?thesis by simp
  next
    case False
    then show ?thesis using t2 by (auto simp add: on_transfer_unfold Let_def)
  qed
qed

lemma on_transfer_conserved:
  "conserved s \<Longrightarrow> conserved (snd (on_transfer auths act s))"
  by (simp add: conserved_def on_transfer_supply on_transfer_finite on_transfer_total)

lemma sgoc_accounts [simp]: "accounts (snd (stats_get_or_create s)) = accounts s"
  by (simp add: stats_get_or_create_def split: option.splits)

lemma sgoc_fst: "fst (stats_get_or_create s) = \<lparr>supply = supply_of s\<rparr>"
  by (simp add: stats_get_or_create_def supply_of_def split: option.splits)

lemma stats_set_accounts [simp]: "accounts (stats_set r s) = accounts s"
  by (simp add: stats_set_def)

lemma balance_of_cong: "accounts s = accounts s' \<Longrightarrow> balance_of s = balance_of s'"
  by (rule ext) (simp add: balance_of_def)

lemma total_balance_cong: "accounts s = accounts s' \<Longrightarrow> total_balance s = total_balance s'"
  by (simp add: total_balance_def balance_of_cong [of s s'])

lemma on_issue_unfold:
  "on_issue Code auths act s =
     (if Code \<notin> set auths then (Inl Unauthorized, s)
      else inline_transfer auths Code (issue_to act) (issue_quantity act) []
             (issue_credit Code (issue_quantity act) s))"
proof -
  have b: "balance_of (stats_set r (snd (stats_get_or_create s))) Code = balance_of s Code" for r
    by (simp add: balance_of_def)
  show ?thesis
    by (simp add: on_issue_def and_then_def require_auth_def assert_that_def
      get_balance_eq set_balance_def issue_credit_def Let_def b case_prod_beta sgoc_fst)
qed

lemma issue_credit_supply: "supply_of (issue_credit Code q s) = supply_of s + q"
  by (simp add: issue_credit_def Let_def) (simp add: supply_of_def stats_set_def)

lemma issue_credit_finite:
  "finite (dom (accounts (issue_credit Code q s))) = finite (dom (accounts s))"
  by (simp add: issue_credit_def Let_def)

lemma issue_credit_total:
  assumes "finite (dom (accounts s))"
  shows "total_balance (issue_credit Code q s) = total_balance s + q"
proof -
  let ?s2 = "stats_set \<lparr>supply = supply_of s + q\<rparr> (snd (stats_get_or_create s))"
  let ?s3 = "snd (accounts_get_or_create Code ?s2)"
  have a2: "accounts ?s2 = accounts s" by simp
  have f2: "finite (dom (accounts ?s2))" using assms by simp
  have t2: "total_balance ?s2 = total_balance s" by (rule total_balance_cong [OF a2])
  have t3: "total_balance ?s3 = total_balance s" using goc_total [OF f2, of Code] t2 by simp
  have b3: "balance_of ?s3 Code = balance_of s Code"
    by (simp add: goc_balance_of balance_of_cong [OF a2])
  have f3: "finite (dom (accounts ?s3))" using f2 by simp
  show ?thesis
    using credit_total [OF f3, of Code q] by (simp add: issue_credit_def Let_def b3 t3)
qed

lemma issue_credit_conserved: "conserved s \<Longrightarrow> conserved (issue_credit Code q s)"
  by (simp add: conserved_def issue_credit_supply issue_credit_finite issue_credit_total)

lemma on_issue_conserved:
  "conserved s \<Longrightarrow> conserved (snd (on_issue Code auths act s))"
  by (simp add: on_issue_unfold inline_transfer_def on_transfer_conserved issue_credit_conserved)

lemma apply_op_conserved: "conserved s \<Longrightarrow> conserved (snd (apply_op Code op s))"
  by (cases op) (simp_all add: apply_op_def on_issue_conserved on_transfer_conserved)

lemma commit_conserved: "conserved s \<Longrightarrow> conserved (commit s (apply_op Code op s))"
  using apply_op_conserved [of s Code op]
  by (cases "apply_op Code op s") (auto simp: commit_def split: sum.splits)

lemma on_issue_result:
  assumes "Code \<in> set auths" and "finite (dom (accounts s))"
  shows "fst (on_issue Code auths act s) = Inr ()"
    and "supply_of (snd (on_issue Code auths act s)) = supply_of s + issue_quantity act"
    and "total_balance (snd (on_issue Code auths act s)) = total_balance s + issue_quantity act"
proof -
  let ?c = "issue_credit Code (issue_quantity act) s"
  have b: "balance_of ?c Code = balance_of s Code + issue_quantity act"
    by (simp add: issue_credit_def Let_def balance_of_accounts_set)
  show "fst (on_issue Code auths act s) = Inr ()"
    using assms(1) by (simp add: on_issue_unfold inline_transfer_def on_transfer_unfold Let_def b)
  show "supply_of (snd (on_issue Code auths act s)) = supply_of s + issue_quantity act"
    using assms(1) by (simp add: on_issue_unfold inline_transfer_def on_transfer_supply issue_credit_supply)
  have "finite (dom (accounts ?c))" using assms(2) by (simp add: issue_credit_finite)
  then show "total_balance (snd (on_issue Code auths act s)) = total_balance s + issue_quantity act"
    using assms by (simp add: on_issue_unfold inline_transfer_def on_transfer_total issue_credit_total)
qed

text \<open>
  Claim C1. For every sequence of issue and transfer operations on one currency, the
  supply recorded in the stats equals the sum of all account balances before the first
  operation and after each one, a failed operation leaving the tables as they were.
  The steps are \<open>on_issue_conserved\<close> and \<open>on_transfer_conserved\<close>, which hold for the
  tables a failed handler stops at as well; \<open>on_issue_result\<close> has the supply and the
  balances grow by the quantity issued, and \<open>on_transfer_supply\<close> and
  \<open>on_transfer_total\<close> have a transfer leave both as they were.
\<close>

theorem supply_equals_sum_of_balances:
  assumes "conserved s"
  shows "\<forall>s' \<in> set (run_ops Code ops s). conserved s'"
  using assms
proof (induction ops arbitrary: s)
  case Nil
  then show ?case by simp
next
  case (Cons op ops)
  have "conserved (commit s (apply_op Code op s))"
    by (rule commit_conserved [OF Cons.prems])
  from Cons.IH [OF this] Cons.prems show ?case by simp
qed

lemma ex_run: "last (run_ops 1 ex_ops empty_ledger) = 
   \<lparr>accounts = [1 \<mapsto> \<lparr>balance = 0\<rparr>, 2 \<mapsto> \<lparr>balance = 70\<rparr>, 3 \<mapsto> \<lparr>balance = 30\<rparr>], stats = Some \<lparr>supply = 100\<rparr>, notified = [2, 1, 3, 2]\<rparr>"
  by (simp add: ex_ops_def empty_ledger_def apply_op_def commit_def on_issue_def on_transfer_def
      inline_transfer_def and_then_def require_auth_def assert_that_def require_recipient_def
      get_balance_def set_balance_def accounts_get_or_create_def accounts_set_def
      stats_get_or_create_def stats_set_def pure_step_def tok_sub_def fun_upd_twist)

text \<open>
  An issue of 100 to account 2 by the currency 1, a transfer of 30 from 2 to 3, and a
  transfer of 50 from 3 to 2 that fails: \<open>ex_run\<close> gives the tables at the end.
\<close>

theorem supply_equals_sum_of_balances_witness:
  "conserved empty_ledger \<and>
   list_all conserved (run_ops 1 ex_ops empty_ledger) \<and>
   supply_of (last (run_ops 1 ex_ops empty_ledger)) = 100 \<and>
   balance_of (last (run_ops 1 ex_ops empty_ledger)) 2 = 70 \<and>
   balance_of (last (run_ops 1 ex_ops empty_ledger)) 3 = 30"
proof -
  have c: "conserved empty_ledger"
    by (simp add: conserved_def empty_ledger_def supply_of_def total_balance_def)
  have "list_all conserved (run_ops 1 ex_ops empty_ledger)"
    using supply_equals_sum_of_balances [OF c, of 1 ex_ops] by (simp add: list_all_iff)
  moreover have "supply_of (last (run_ops 1 ex_ops empty_ledger)) = 100"
    and "balance_of (last (run_ops 1 ex_ops empty_ledger)) 2 = 70"
    and "balance_of (last (run_ops 1 ex_ops empty_ledger)) 3 = 30"
    unfolding ex_run by (simp_all add: supply_of_def balance_of_def)
  ultimately show ?thesis using c by blast
qed

lemma on_transfer_balance_of:
  assumes "from_account act \<in> set auths" and "\<not> balance_of s (from_account act) < quantity act"
  shows "balance_of (snd (on_transfer auths act s)) a =
           (let debited = (\<lambda>x. if x = from_account act then balance_of s x - quantity act else balance_of s x)
            in if a = to_account act then debited a + quantity act else debited a)"
  using assms
  by (simp add: on_transfer_unfold Let_def balance_of_accounts_set goc_balance_of)

text \<open>
  Claim C4. A transfer authorised by the sender whose balance is strictly less than
  the quantity fails with \<open>InsufficientBalance\<close> and the balance of every account is
  what it was; otherwise it succeeds, the sender is debited by the quantity and then the
  recipient credited by it. The failure is that of the subtraction of token amounts.
\<close>

theorem transfer_checks_balance:
  assumes "from_account act \<in> set auths"
  shows "(balance_of s (from_account act) < quantity act \<longrightarrow>
            fst (on_transfer auths act s) = Inl InsufficientBalance \<and>
            (\<forall>a. balance_of (snd (on_transfer auths act s)) a = balance_of s a)) \<and>
         (\<not> balance_of s (from_account act) < quantity act \<longrightarrow>
            fst (on_transfer auths act s) = Inr () \<and>
            (\<forall>a. balance_of (snd (on_transfer auths act s)) a =
                 (let debited = (\<lambda>x. if x = from_account act then balance_of s x - quantity act
                                      else balance_of s x)
                  in if a = to_account act then debited a + quantity act else debited a)))"
proof (intro conjI impI allI)
  assume low: "balance_of s (from_account act) < quantity act"
  from assms low show "fst (on_transfer auths act s) = Inl InsufficientBalance"
    by (simp add: on_transfer_unfold Let_def)
  fix a
  from assms low show "balance_of (snd (on_transfer auths act s)) a = balance_of s a"
    by (simp add: on_transfer_unfold Let_def goc_balance_of)
next
  assume enough: "\<not> balance_of s (from_account act) < quantity act"
  from assms enough show "fst (on_transfer auths act s) = Inr ()"
    by (simp add: on_transfer_unfold Let_def)
  fix a
  from assms enough show "balance_of (snd (on_transfer auths act s)) a =
      (let debited = (\<lambda>x. if x = from_account act then balance_of s x - quantity act
                           else balance_of s x)
       in if a = to_account act then debited a + quantity act else debited a)"
    by (rule on_transfer_balance_of)
qed

theorem transfer_checks_balance_witness:
  "3 \<in> set [3::nat] \<and>
   balance_of ex_ledger2 3 < 50 \<and>
   fst (on_transfer [3] (ex_transfer 50) ex_ledger2) = Inl InsufficientBalance \<and>
   balance_of (snd (on_transfer [3] (ex_transfer 50) ex_ledger2)) 3 = 30 \<and>
   balance_of (snd (on_transfer [3] (ex_transfer 50) ex_ledger2)) 2 = 70 \<and>
   \<not> balance_of ex_ledger2 3 < 20 \<and>
   fst (on_transfer [3] (ex_transfer 20) ex_ledger2) = Inr () \<and>
   balance_of (snd (on_transfer [3] (ex_transfer 20) ex_ledger2)) 3 = 10 \<and>
   balance_of (snd (on_transfer [3] (ex_transfer 20) ex_ledger2)) 2 = 90"
proof -
  have a: "from_account (ex_transfer q) \<in> set [3::nat]" for q by (simp add: ex_transfer_def)
  have b: "balance_of ex_ledger2 3 = 30" "balance_of ex_ledger2 2 = 70"
    by (simp_all add: balance_of_def ex_ledger2_def)
  show ?thesis
    using transfer_checks_balance [OF a, of ex_ledger2 50] transfer_checks_balance [OF a, of ex_ledger2 20]
    by (simp add: b ex_transfer_def Let_def)
qed

text \<open>
  Claim C8. For an account with no stored record \<open>get_balance\<close> returns zero and the
  tables after the call are the tables before it: the stored records, every balance, the
  stats and the notifications. The read is that of the store as the spec words it.
\<close>

theorem get_balance_of_absent_account:
  assumes "accounts s owner = None"
  shows "fst (get_balance owner s) = Inr 0 \<and>
         snd (get_balance owner s) = s \<and>
         dom (accounts (snd (get_balance owner s))) = dom (accounts s) \<and>
         (\<forall>a. balance_of (snd (get_balance owner s)) a = balance_of s a)"
  using assms
  by (simp add: get_balance_def accounts_get_or_create_def)

theorem get_balance_of_absent_account_witness:
  "accounts ex_ledger2 7 = None \<and>
   fst (get_balance 7 ex_ledger2) = Inr 0 \<and>
   snd (get_balance 7 ex_ledger2) = ex_ledger2 \<and>
   balance_of (snd (get_balance 7 ex_ledger2)) 3 = 30 \<and>
   dom (accounts (snd (get_balance 7 ex_ledger2))) = {2, 3}"
proof -
  have n: "accounts ex_ledger2 7 = None" by (simp add: ex_ledger2_def)
  have b: "balance_of ex_ledger2 3 = 30" by (simp add: balance_of_def ex_ledger2_def)
  have d: "dom (accounts ex_ledger2) = {2, 3}" by (auto simp add: ex_ledger2_def)
  from n b d get_balance_of_absent_account [OF n] show ?thesis by simp
qed

section \<open>The connector and the dispatcher\<close>

lemma convert_to_relay_unfold:
  "convert_to_relay relay c x st l =
     (let l' = snd (accounts_get_or_create relay l); b = balance_of l relay in
      if b < x then (Inl InsufficientBalance, l')
      else if Weight c * relay_supply st = 0 then (Inl DegenerateCurve, l')
      else let init_out = ((b - x) * Base c) div (Weight c * relay_supply st) * x in
        if Weight c * (relay_supply st + init_out) = 0 then (Inl DegenerateCurve, l')
        else let final_out = (b * Base c) div (Weight c * (relay_supply st + init_out)) * x in
          (Inr (final_out, st\<lparr>relay_balance := relay_balance st + final_out,
                               relay_supply := relay_supply st + final_out\<rparr>), l'))"
  by (simp add: convert_to_relay_def and_then_def get_balance_eq pure_step_def tok_sub_def
      tok_div_def ok_def Let_def)

lemma convert_from_relay_unfold:
  "convert_from_relay relay c i r st l =
     (let l' = snd (accounts_get_or_create relay l); b = balance_of l relay in
      if Weight c * relay_supply st = 0 then (Inl DegenerateCurve, l')
      else let init_out = (b * Base c) div (Weight c * relay_supply st) * i in
        if relay_supply st < r then (Inl InsufficientBalance, l')
        else if relay_balance st < r then (Inl InsufficientBalance, l')
        else if b < init_out then (Inl InsufficientBalance, l')
        else if Weight c * (relay_supply st - r) = 0 then (Inl DegenerateCurve, l')
        else (Inr (((b - init_out) * Base c) div (Weight c * (relay_supply st - r)) * r,
                   st\<lparr>relay_supply := relay_supply st - r, relay_balance := relay_balance st - r\<rparr>), l'))"
  by (simp add: convert_from_relay_def and_then_def get_balance_eq pure_step_def tok_sub_def
      tok_div_def ok_def Let_def)

lemma ex_holding_balance: "balance_of (ex_holding b) 10 = b"
  by (simp add: balance_of_def ex_holding_def)

lemma ex_holding_goc: "accounts_get_or_create 10 (ex_holding b) = (\<lparr>balance = b\<rparr>, ex_holding b)"
  by (simp add: accounts_get_or_create_def ex_holding_def)

text \<open>
  Claim C2. With the connector balance already credited with \<open>amountIn\<close> and a
  denominator \<open>Weight * supply\<close> that is not zero, \<open>convert_to_relay\<close> computes
  \<open>previousBalance = connectorBalance - amountIn\<close>,
  \<open>startPrice = previousBalance * Base / (Weight * supply)\<close>,
  \<open>provisionalOut = startPrice * amountIn\<close>,
  \<open>endPrice = connectorBalance * Base / (Weight * (supply + provisionalOut))\<close>, returns
  \<open>finalOut = endPrice * amountIn\<close> and adds \<open>finalOut\<close> to the balance and to the
  supply of the relay state. The divisions are those of natural numbers, which truncate.
\<close>

theorem convert_to_relay_formula:
  assumes "amountIn \<le> balance_of l relay" and "Weight c * relay_supply st \<noteq> 0"
  shows "(let connectorBalance = balance_of l relay;
              previousBalance = connectorBalance - amountIn;
              startPrice = previousBalance * Base c div (Weight c * relay_supply st);
              provisionalOut = startPrice * amountIn;
              endPrice = connectorBalance * Base c div (Weight c * (relay_supply st + provisionalOut));
              finalOut = endPrice * amountIn
          in fst (convert_to_relay relay c amountIn st l) =
               Inr (finalOut, st\<lparr>relay_balance := relay_balance st + finalOut,
                                   relay_supply := relay_supply st + finalOut\<rparr>))"
  using assms by (simp add: convert_to_relay_unfold Let_def)

text \<open>
  The scenario of the spec: the relay holds 1,000,100 of the connector currency after a
  transfer of 100, and the relay state is supply 1,000,000, balance 1,000,000.
\<close>

theorem convert_to_relay_formula_witness:
  "100 \<le> balance_of (ex_holding 1000100) 10 \<and>
   Weight (first_connector ex_rc) * relay_supply ex_state \<noteq> 0 \<and>
   fst (convert_to_relay 10 (first_connector ex_rc) 100 ex_state (ex_holding 1000100)) =
     Inr (100, \<lparr>relay_supply = 1000100, relay_balance = 1000100\<rparr>)"
proof -
  have h1: "100 \<le> balance_of (ex_holding 1000100) 10" by (simp add: ex_holding_balance)
  have h2: "Weight (first_connector ex_rc) * relay_supply ex_state \<noteq> 0"
    by (simp add: first_connector_def ex_state_def)
  from h1 h2 convert_to_relay_formula [OF h1 h2] show ?thesis
    by (simp add: Let_def ex_holding_balance first_connector_def ex_state_def)
qed

text \<open>
  Claim C10. With a denominator that is not zero, \<open>convert_to_relay\<close> at the input
  amount zero returns zero and the relay state it was given, and the balance of every
  account of the connector currency is what it was.
\<close>

theorem convert_to_relay_of_zero:
  assumes "Weight c * relay_supply st \<noteq> 0"
  shows "fst (convert_to_relay relay c 0 st l) = Inr (0, st) \<and>
         (\<forall>a. balance_of (snd (convert_to_relay relay c 0 st l)) a = balance_of l a)"
  using assms by (simp add: convert_to_relay_unfold Let_def goc_balance_of)

theorem convert_to_relay_of_zero_witness:
  "Weight (first_connector ex_rc) * relay_supply ex_state \<noteq> 0 \<and>
   fst (convert_to_relay 10 (first_connector ex_rc) 0 ex_state (ex_holding 1000000)) = Inr (0, ex_state) \<and>
   balance_of (snd (convert_to_relay 10 (first_connector ex_rc) 0 ex_state (ex_holding 1000000))) 10 = 1000000"
proof -
  have h: "Weight (first_connector ex_rc) * relay_supply ex_state \<noteq> 0"
    by (simp add: first_connector_def ex_state_def)
  from h convert_to_relay_of_zero [OF h, of 10 "ex_holding 1000000"] show ?thesis
    by (simp add: ex_holding_balance)
qed

text \<open>
  Claim C9. A conversion that returns changes the supply and the balance of the relay
  state by the same amount: \<open>convert_to_relay\<close> adds the amount it returns to both,
  \<open>convert_from_relay\<close> subtracts the relay amount it is given from both, whatever
  the undeclared \<^verbatim>\<open>in\<close> stands for. The difference of supply and balance is preserved.
\<close>

theorem conversions_change_supply_and_balance_alike:
  "(fst (convert_to_relay relay c x st l) = Inr (out, st') \<longrightarrow>
      relay_supply st' = relay_supply st + out \<and>
      relay_balance st' = relay_balance st + out \<and>
      int (relay_supply st') - int (relay_balance st') = int (relay_supply st) - int (relay_balance st)) \<and>
   (fst (convert_from_relay relay c i r st l) = Inr (out2, st2) \<longrightarrow>
      relay_supply st2 + r = relay_supply st \<and>
      relay_balance st2 + r = relay_balance st \<and>
      int (relay_supply st2) - int (relay_balance st2) = int (relay_supply st) - int (relay_balance st))"
  by (auto simp add: convert_to_relay_unfold convert_from_relay_unfold Let_def split: if_splits)

theorem conversions_change_supply_and_balance_alike_witness:
  "fst (convert_to_relay 10 (first_connector ex_rc) 100
          \<lparr>relay_supply = 1000000, relay_balance = 400000\<rparr> (ex_holding 2000000)) =
     Inr (300, \<lparr>relay_supply = 1000300, relay_balance = 400300\<rparr>) \<and>
   fst (convert_from_relay 10 (first_connector ex_rc) 300 300
          \<lparr>relay_supply = 1000300, relay_balance = 400300\<rparr> (ex_holding 2000000)) =
     Inr (900, \<lparr>relay_supply = 1000000, relay_balance = 400000\<rparr>) \<and>
   int (relay_supply \<lparr>relay_supply = 1000300, relay_balance = 400300\<rparr>) -
   int (relay_balance \<lparr>relay_supply = 1000300, relay_balance = 400300\<rparr>) = 600000"
proof -
  let ?st0 = "\<lparr>relay_supply = 1000000, relay_balance = 400000\<rparr>"
  let ?st1 = "\<lparr>relay_supply = 1000300, relay_balance = 400300\<rparr>"
  have a: "fst (convert_to_relay 10 (first_connector ex_rc) 100 ?st0 (ex_holding 2000000)) = Inr (300, ?st1)"
    by (simp add: convert_to_relay_unfold Let_def ex_holding_balance first_connector_def)
  have b: "fst (convert_from_relay 10 (first_connector ex_rc) 300 300 ?st1 (ex_holding 2000000)) = Inr (900, ?st0)"
    by (simp add: convert_from_relay_unfold Let_def ex_holding_balance first_connector_def)
  from conversions_change_supply_and_balance_alike
         [of 10 "first_connector ex_rc" 100 ?st0 "ex_holding 2000000" 300 ?st1 300 300 900 ?st0] a b
  show ?thesis by simp
qed

text \<open>
  Claim C7 as stated fails in its second half. On the relay state of the spec's
  scenario with 1,000,000 of the connector currency held, redeeming 600,000 has both
  denominators positive and fails: the provisional output, 1,200,000, is more than the
  balance it is subtracted from.
\<close>

theorem from_relay_fails_with_positive_denominators:
  "0 < Weight (first_connector ex_rc) * relay_supply ex_state \<and>
   0 < Weight (first_connector ex_rc) * (relay_supply ex_state - 600000) \<and>
   fst (convert_from_relay 10 (first_connector ex_rc) 600000 600000 ex_state (ex_holding 1000000)) =
     Inl InsufficientBalance"
  by (simp add: convert_from_relay_unfold Let_def ex_holding_balance first_connector_def ex_state_def)

text \<open>
  Claim C7, amended. In both conversions a division that is reached with a zero
  denominator fails with \<open>DegenerateCurve\<close>. With all denominators positive neither
  conversion fails with \<open>DegenerateCurve\<close>: each returns a result when, besides, no
  subtraction goes below zero (the amount is at most the connector balance in
  \<open>convert_to_relay\<close>; the relay amount is at most the relay balance and the
  provisional output at most the connector balance in \<open>convert_from_relay\<close>), and
  fails with \<open>InsufficientBalance\<close> otherwise. The seven cases are all the outcomes of
  the two conversions.
\<close>

theorem conversions_errors:
  "(amountIn \<le> balance_of l relay \<and> Weight c * relay_supply st = 0 \<longrightarrow>
      fst (convert_to_relay relay c amountIn st l) = Inl DegenerateCurve) \<and>
   (balance_of l relay < amountIn \<longrightarrow>
      fst (convert_to_relay relay c amountIn st l) = Inl InsufficientBalance) \<and>
   (0 < Weight c * relay_supply st \<and> amountIn \<le> balance_of l relay \<longrightarrow>
      (\<exists>out st'. fst (convert_to_relay relay c amountIn st l) = Inr (out, st'))) \<and>
   (Weight c * relay_supply st = 0 \<longrightarrow>
      fst (convert_from_relay relay c i relayAmountIn st l) = Inl DegenerateCurve) \<and>
   (0 < Weight c * relay_supply st \<and>
    (relay_supply st < relayAmountIn \<or> relay_balance st < relayAmountIn \<or>
     balance_of l relay < balance_of l relay * Base c div (Weight c * relay_supply st) * i) \<longrightarrow>
      fst (convert_from_relay relay c i relayAmountIn st l) = Inl InsufficientBalance) \<and>
   (0 < Weight c * relay_supply st \<and>
    relayAmountIn \<le> relay_supply st \<and> relayAmountIn \<le> relay_balance st \<and>
    balance_of l relay * Base c div (Weight c * relay_supply st) * i \<le> balance_of l relay \<and>
    Weight c * (relay_supply st - relayAmountIn) = 0 \<longrightarrow>
      fst (convert_from_relay relay c i relayAmountIn st l) = Inl DegenerateCurve) \<and>
   (0 < Weight c * relay_supply st \<and> 0 < Weight c * (relay_supply st - relayAmountIn) \<and>
    relayAmountIn \<le> relay_balance st \<and>
    balance_of l relay * Base c div (Weight c * relay_supply st) * i \<le> balance_of l relay \<longrightarrow>
      (\<exists>out st'. fst (convert_from_relay relay c i relayAmountIn st l) = Inr (out, st')))"
  by (auto simp add: convert_to_relay_unfold convert_from_relay_unfold Let_def)

theorem conversions_errors_witness:
  "fst (convert_to_relay 10 (first_connector ex_rc) 100
          \<lparr>relay_supply = 0, relay_balance = 0\<rparr> (ex_holding 1000100)) = Inl DegenerateCurve \<and>
   fst (convert_from_relay 10 (first_connector ex_rc) 100 100
          \<lparr>relay_supply = 0, relay_balance = 0\<rparr> (ex_holding 1000100)) = Inl DegenerateCurve \<and>
   fst (convert_from_relay 10 (first_connector ex_rc) 100 100
          \<lparr>relay_supply = 100, relay_balance = 100\<rparr> (ex_holding 0)) = Inl DegenerateCurve \<and>
   fst (convert_to_relay 10 (first_connector ex_rc) 100 ex_state (ex_holding 50)) =
     Inl InsufficientBalance \<and>
   fst (convert_from_relay 10 (first_connector ex_rc) 100 100
          \<lparr>relay_supply = 1000000, relay_balance = 0\<rparr> (ex_holding 1000100)) = Inl InsufficientBalance \<and>
   100 \<le> balance_of (ex_holding 1000100) 10 \<and>
   0 < Weight (first_connector ex_rc) * relay_supply ex_state \<and>
   0 < Weight (first_connector ex_rc) * (relay_supply ex_state - 100) \<and>
   100 \<le> relay_balance ex_state \<and>
   (\<exists>out st'. fst (convert_to_relay 10 (first_connector ex_rc) 100 ex_state (ex_holding 1000100)) =
      Inr (out, st')) \<and>
   (\<exists>out st'. fst (convert_from_relay 10 (first_connector ex_rc) 100 100 ex_state (ex_holding 1000100)) =
      Inr (out, st'))"
proof -
  let ?c = "first_connector ex_rc"
  let ?z = "\<lparr>relay_supply = 0, relay_balance = 0\<rparr>"
  let ?h = "\<lparr>relay_supply = 100, relay_balance = 100\<rparr>"
  have w: "Weight ?c = 500000" "Base ?c = 1000000" by (simp_all add: first_connector_def)
  have s: "relay_supply ex_state = 1000000" "relay_balance ex_state = 1000000"
    by (simp_all add: ex_state_def)
  from conversions_errors [of 100 "ex_holding 1000100" 10 ?c ?z 100 100]
  have a: "fst (convert_to_relay 10 ?c 100 ?z (ex_holding 1000100)) = Inl DegenerateCurve"
    and b: "fst (convert_from_relay 10 ?c 100 100 ?z (ex_holding 1000100)) = Inl DegenerateCurve"
    by (simp_all add: ex_holding_balance)
  from conversions_errors [of 100 "ex_holding 0" 10 ?c ?h 100 100]
  have c: "fst (convert_from_relay 10 ?c 100 100 ?h (ex_holding 0)) = Inl DegenerateCurve"
    by (simp add: ex_holding_balance w)
  from conversions_errors [of 100 "ex_holding 1000100" 10 ?c ex_state 100 100]
  have d: "\<exists>out st'. fst (convert_to_relay 10 ?c 100 ex_state (ex_holding 1000100)) = Inr (out, st')"
    and e: "\<exists>out st'. fst (convert_from_relay 10 ?c 100 100 ex_state (ex_holding 1000100)) = Inr (out, st')"
    by (simp_all add: ex_holding_balance w s)
  from conversions_errors [of 100 "ex_holding 50" 10 ?c ex_state 100 100]
  have f: "fst (convert_to_relay 10 ?c 100 ex_state (ex_holding 50)) = Inl InsufficientBalance"
    by (simp add: ex_holding_balance)
  from conversions_errors [of 100 "ex_holding 1000100" 10 ?c
         "\<lparr>relay_supply = 1000000, relay_balance = 0\<rparr>" 100 100]
  have g: "fst (convert_from_relay 10 ?c 100 100 \<lparr>relay_supply = 1000000, relay_balance = 0\<rparr>
                  (ex_holding 1000100)) = Inl InsufficientBalance"
    by (simp add: ex_holding_balance w)
  from a b c d e f g show ?thesis by (simp add: ex_holding_balance w s)
qed

lemma round_trip_unfold:
  "round_trip relay c x st l =
     (case convert_to_relay relay c x st l of
        (Inl e, l') \<Rightarrow> (Inl e, l')
      | (Inr (r, st1), l') \<Rightarrow> convert_from_relay relay c r r st1 l')"
  by (simp add: round_trip_def and_then_def split: prod.splits sum.splits)

text \<open>
  Claim C3 as stated fails. With 2,000,000 of connector A held by the relay after a
  transfer of 100 and a relay supply of 1,000,000, the 100 units convert to 300 relay
  tokens and these convert back to 900 units of A.
\<close>

theorem round_trip_creates_value:
  "0 < (100::nat) \<and>
   fst (round_trip 10 (first_connector ex_rc) 100 ex_state (ex_holding 2000000)) = Inr (900, ex_state) \<and>
   \<not> (900::nat) \<le> 100"
proof -
  have "convert_to_relay 10 (first_connector ex_rc) 100 ex_state (ex_holding 2000000) =
          (Inr (300, \<lparr>relay_supply = 1000300, relay_balance = 1000300\<rparr>), ex_holding 2000000)"
    by (simp add: convert_to_relay_unfold Let_def ex_holding_balance ex_holding_goc
        first_connector_def ex_state_def)
  moreover have "fst (convert_from_relay 10 (first_connector ex_rc) 300 300
                   \<lparr>relay_supply = 1000300, relay_balance = 1000300\<rparr> (ex_holding 2000000)) =
                 Inr (900, ex_state)"
    by (simp add: convert_from_relay_unfold Let_def ex_holding_balance first_connector_def ex_state_def)
  ultimately show ?thesis by (simp add: round_trip_unfold)
qed

lemma goc_idem_balance:
  "balance_of (snd (accounts_get_or_create a l)) a = balance_of l a"
  by (simp add: goc_balance_of)

text \<open>
  Claim C3, amended. When a positive amount \<open>x\<close> of connector A is converted to relay
  and the result at once back to A, and both conversions return, the amount that comes
  back is \<open>fromPrice * toPrice * x\<close>, the product of the truncated end prices of the
  two conversions and \<open>x\<close>, and the relay state is the one before. The amount is at
  most \<open>x\<close> exactly when \<open>fromPrice * toPrice\<close> is at most 1.
\<close>

theorem round_trip_amount:
  assumes "0 < x" and "fst (round_trip relay c x st l) = Inr (y, st')"
  shows "(let b = balance_of l relay;
              toPrice = b * Base c div
                          (Weight c * (relay_supply st + (b - x) * Base c div (Weight c * relay_supply st) * x));
              relayOut = toPrice * x;
              fromPrice = (b - b * Base c div (Weight c * (relay_supply st + relayOut)) * relayOut) * Base c div
                            (Weight c * relay_supply st)
          in y = fromPrice * toPrice * x \<and> st' = st \<and> (y \<le> x \<longleftrightarrow> fromPrice * toPrice \<le> 1))"
proof -
  define b where "b = balance_of l relay"
  define toPrice where "toPrice = b * Base c div
      (Weight c * (relay_supply st + (b - x) * Base c div (Weight c * relay_supply st) * x))"
  define relayOut where "relayOut = toPrice * x"
  define fromPrice where "fromPrice =
      (b - b * Base c div (Weight c * (relay_supply st + relayOut)) * relayOut) * Base c div
        (Weight c * relay_supply st)"
  let ?l1 = "snd (accounts_get_or_create relay l)"
  let ?st1 = "st\<lparr>relay_balance := relay_balance st + relayOut, relay_supply := relay_supply st + relayOut\<rparr>"
  from assms(2) have ok1: "convert_to_relay relay c x st l = (Inr (relayOut, ?st1), ?l1)"
    unfolding round_trip_unfold relayOut_def toPrice_def b_def
    by (auto simp add: convert_to_relay_unfold Let_def split: if_splits)
  with assms(2) have ok2: "fst (convert_from_relay relay c relayOut relayOut ?st1 ?l1) = Inr (y, st')"
    by (simp add: round_trip_unfold)
  have b1: "balance_of ?l1 relay = b" by (simp add: goc_balance_of b_def)
  from ok2 have y: "y = fromPrice * relayOut" and s: "st' = st"
    unfolding fromPrice_def
    by (auto simp add: convert_from_relay_unfold Let_def b1 split: if_splits)
  have yx: "y = (fromPrice * toPrice) * x" using y by (simp add: relayOut_def)
  have "y \<le> x \<longleftrightarrow> fromPrice * toPrice \<le> 1"
    using assms(1) unfolding yx by simp
  with yx s show ?thesis
    unfolding Let_def b_def [symmetric] toPrice_def [symmetric] relayOut_def [symmetric]
      fromPrice_def [symmetric]
    by simp
qed

theorem round_trip_amount_witness:
  "0 < (100::nat) \<and>
   fst (round_trip 10 (first_connector ex_rc) 100 ex_state (ex_holding 1000100)) = Inr (100, ex_state) \<and>
   (100::nat) \<le> 100"
proof -
  have "convert_to_relay 10 (first_connector ex_rc) 100 ex_state (ex_holding 1000100) =
          (Inr (100, \<lparr>relay_supply = 1000100, relay_balance = 1000100\<rparr>), ex_holding 1000100)"
    by (simp add: convert_to_relay_unfold Let_def ex_holding_balance ex_holding_goc
        first_connector_def ex_state_def)
  moreover have "fst (convert_from_relay 10 (first_connector ex_rc) 100 100
                   \<lparr>relay_supply = 1000100, relay_balance = 1000100\<rparr> (ex_holding 1000100)) =
                 Inr (100, ex_state)"
    by (simp add: convert_from_relay_unfold Let_def ex_holding_balance first_connector_def ex_state_def)
  ultimately have h: "fst (round_trip 10 (first_connector ex_rc) 100 ex_state (ex_holding 1000100)) =
      Inr (100, ex_state)"
    by (simp add: round_trip_unfold)
  have p: "0 < (100::nat)" by simp
  from h round_trip_amount [OF p h] show ?thesis by simp
qed

lemma on_convert_same_connector: "on_convert rc c = on_convert_spec rc c c"
  by (intro ext) (simp add: on_convert_def on_convert_spec_def)

lemmas ex_eval =
  ex_rc_def ex_world_def ex_unpack_def ex_incoming_def ex_state_def
  first_connector_def second_connector_def connector_of_def
  apply_action_def apply_action_spec_def on_currency_transfer_def start_convert_def
  on_convert_def on_convert_spec_def read_relay_state_def save_and_send_def in_currency_def
  and_then_def pure_step_def assert_that_def abort_def ok_def
  convert_to_relay_unfold convert_from_relay_unfold ex_holding_balance ex_holding_goc Let_def

text \<open>
  Claim C5 against the code. The relay holds 2,000,000 of the first currency and
  500,000 of the second; a trader's transfer of 100 of the first currency asks for the
  second. The dispatcher converts to relay on the first connector and back on the first
  connector again (\<open>on_convert_same_connector\<close>): 900 is sent to the trader, where the
  conversion back on the second connector gives 300. Only the final amount is sent.
\<close>

theorem cross_conversion_reuses_source_connector:
  "fst (apply_action ex_rc ex_unpack [40] 20 ''transfer'' (ex_incoming ''second'') ex_world) = Inr () \<and>
   sent (snd (apply_action ex_rc ex_unpack [40] 20 ''transfer'' (ex_incoming ''second'') ex_world)) = [(40, 900)] \<and>
   sent (snd (on_convert ex_rc (first_connector ex_rc) (ex_incoming ''second'')
                \<lparr>to_currency_type = 30, min_return_currency = 0\<rparr> ex_state ex_world)) = [(40, 900)] \<and>
   sent (snd (on_convert_spec ex_rc (first_connector ex_rc) (second_connector ex_rc) (ex_incoming ''second'')
                \<lparr>to_currency_type = 30, min_return_currency = 0\<rparr> ex_state ex_world)) = [(40, 300)]"
  by (simp add: ex_eval)

lemma apply_action_other_code:
  "code \<noteq> RelayAccount rc \<Longrightarrow> code \<noteq> FirstCurrency rc \<Longrightarrow>
   apply_action rc unpack auths code action tr w = (Inl UnknownActionNotification, w)"
  by (simp add: apply_action_def abort_def)

text \<open>
  Claim C6 against the code. A transfer notification whose code is the second currency
  reaches no handler: \<open>apply_action\<close> stops with "unknown action notification" and
  touches nothing (\<open>apply_action_other_code\<close> for every such code), where the dispatch
  of distinct branches hands it to the second currency's handler, which sends 100 relay
  tokens to the trader.
\<close>

theorem second_currency_notification_rejected:
  "apply_action ex_rc ex_unpack [40] 30 ''transfer'' (ex_incoming ''relay'') ex_world =
     (Inl UnknownActionNotification, ex_world) \<and>
   fst (apply_action_spec ex_rc ex_unpack [40] 30 ''transfer'' (ex_incoming ''relay'') ex_world) = Inr () \<and>
   sent (snd (apply_action_spec ex_rc ex_unpack [40] 30 ''transfer'' (ex_incoming ''relay'') ex_world)) = [(40, 100)]"
  by (simp add: ex_eval)

end
